theory Spec2Isabelle
  imports Complex_Main "HOL-Library.Multiset" "HOL-Library.Sublist"
begin

section \<open>JavaScript values used by the views\<close>

text \<open>
  A JavaScript \<open>number\<close>. The finite values are idealised as reals (the ratings and
  counts the views handle are small integers, whose sums are exact in double precision);
  the three non-finite results of a division by zero are kept apart, so that a
  division the code does not guard is visible in the model instead of being the
  \<open>x / 0 = 0\<close> of HOL.
\<close>

datatype number = Fin real | PosInf | NegInf | NaN

text \<open>The operator \<open>/\<close> on two finite numbers.\<close>

definition js_div :: "real \<Rightarrow> real \<Rightarrow> number" where
  "js_div x y =
     (if y = 0 then (if x = 0 then NaN else if 0 < x then PosInf else NegInf)
      else Fin (x / y))"

text \<open>The operator \<open>-\<close> on numbers.\<close>

fun js_sub :: "number \<Rightarrow> number \<Rightarrow> number" where
  "js_sub (Fin a) (Fin b) = Fin (a - b)"
| "js_sub NaN _ = NaN"
| "js_sub _ NaN = NaN"
| "js_sub PosInf PosInf = NaN"
| "js_sub NegInf NegInf = NaN"
| "js_sub PosInf _ = PosInf"
| "js_sub NegInf _ = NegInf"
| "js_sub (Fin a) PosInf = NegInf"
| "js_sub (Fin a) NegInf = PosInf"

text \<open>
  \<open>Array.prototype.sort\<close> with a comparator. The comparator's result only matters
  through its sign, and \<open>NaN\<close> counts as \<open>0\<close>. The sort is stable; it is modelled as
  the stable insertion sort, which for a consistent comparator returns the one
  stable sorted arrangement that the language prescribes.
\<close>

fun positive :: "number \<Rightarrow> bool" where
  "positive (Fin x) = (0 < x)"
| "positive PosInf = True"
| "positive NegInf = False"
| "positive NaN = False"

fun js_insert :: "('a \<Rightarrow> 'a \<Rightarrow> number) \<Rightarrow> 'a \<Rightarrow> 'a list \<Rightarrow> 'a list" where
  "js_insert cmp x [] = [x]"
| "js_insert cmp x (y # ys) =
     (if positive (cmp x y) then y # js_insert cmp x ys else x # y # ys)"

definition js_sort :: "('a \<Rightarrow> 'a \<Rightarrow> number) \<Rightarrow> 'a list \<Rightarrow> 'a list" where
  "js_sort cmp xs = foldr (js_insert cmp) xs []"

text \<open>
  \<open>String.prototype.toLowerCase\<close>, on the ASCII letters; every other character is
  left as it is. \<open>String.prototype.includes\<close> is the test for a contiguous
  substring.
\<close>

definition lower_char :: "char \<Rightarrow> char" where
  "lower_char c =
     (if 65 \<le> (of_char c :: nat) \<and> (of_char c :: nat) \<le> 90
      then char_of (of_char c + (32 :: nat)) else c)"

definition toLowerCase :: "string \<Rightarrow> string" where
  "toLowerCase s = map lower_char s"

fun includes_str :: "'a list \<Rightarrow> 'a list \<Rightarrow> bool" where
  "includes_str [] t = (t = [])"
| "includes_str (c # s) t = (prefix t (c # s) \<or> includes_str s t)"

text \<open>
  What a request to the hosted backend gives back: the awaited promise either
  resolves to an object with the fields \<open>data\<close> and \<open>error\<close> (either may be null),
  or it rejects. A failure value is an instance of \<open>Error\<close> or any other object;
  both carry the text of their \<open>message\<close> property.
\<close>

datatype failure = ErrorInstance string | PlainObject string

datatype 'a reply = Reply "'a option" "failure option" | Rejected failure

section \<open>The feed\<close>

type_synonym user_id = string
type_synonym form_id = string

text \<open>
  A form as the feed holds it. The interface \<open>Form\<close> declares the rating of a fill a
  number, and the modal only ever stores whole stars, so it is an integer here. The
  description, the tags and the expiry date may be null in a row (the code tests the
  first two before it uses them); \<open>profiles\<close> is null or an object with a name.
\<close>

record fill =
  rating :: int

record form =
  id_form :: form_id
  title :: string
  description :: "string option"
  google_form_url :: string
  tags :: "string list option"
  created_at :: string
  expire_at :: "string option"
  user_id :: user_id
  profiles :: "string option"
  form_fills :: "fill list"

text \<open>
  The two requests of the feed: the forms with their fills, newest first, and the
  profile name of one user (\<open>maybeSingle\<close>).
\<close>

record feed_client =
  select_forms :: "form list reply"
  select_profile :: "user_id \<Rightarrow> string reply"

record feed_state =
  searchTerm :: string
  sortBy :: string
  filterTag :: string
  forms :: "form list"
  loading :: bool
  error :: "string option"

definition feed_initial :: feed_state where
  "feed_initial =
     \<lparr>searchTerm = '''', sortBy = ''newest'', filterTag = ''all'', forms = [],
      loading = True, error = None\<rparr>"

text \<open>The body of the \<open>map\<close> callback of \<open>fetchForms\<close>: one profile lookup per form.\<close>

definition withProfile :: "feed_client \<Rightarrow> form \<Rightarrow> form" where
  "withProfile c f =
     (case select_profile c (user_id f) of
        Reply profile profileError \<Rightarrow>
          (case profile of
             Some p \<Rightarrow> f\<lparr>profiles := Some p\<rparr>
           | None \<Rightarrow> f\<lparr>profiles := Some ''Unknown User''\<rparr>)
      | Rejected err \<Rightarrow> f\<lparr>profiles := Some ''Unknown User''\<rparr>)"

text \<open>The \<open>catch\<close> block of \<open>fetchForms\<close>.\<close>

definition failureText :: "failure \<Rightarrow> string" where
  "failureText e =
     (case e of ErrorInstance m \<Rightarrow> m | PlainObject m \<Rightarrow> ''Failed to load forms'')"

definition catchForms :: "failure \<Rightarrow> feed_state \<Rightarrow> feed_state" where
  "catchForms e s = s\<lparr>error := Some (failureText e)\<rparr>"

definition fetchForms :: "feed_client \<Rightarrow> feed_state \<Rightarrow> feed_state" where
  "fetchForms c s =
     (let s1 = s\<lparr>loading := True, error := None\<rparr>;
          s2 = (case select_forms c of
                  Rejected e \<Rightarrow> catchForms e s1
                | Reply formsData formsError \<Rightarrow>
                    (case formsError of
                       Some e \<Rightarrow> catchForms e s1
                     | None \<Rightarrow>
                         (case formsData of
                            None \<Rightarrow> s1\<lparr>forms := []\<rparr>
                          | Some rows \<Rightarrow>
                              (if length rows = 0 then s1\<lparr>forms := []\<rparr>
                               else s1\<lparr>forms := map (withProfile c) rows\<rparr>))))
      in s2\<lparr>loading := False\<rparr>)"

text \<open>The filter of the feed, as the source writes it.\<close>

definition matchesSearch :: "string \<Rightarrow> form \<Rightarrow> bool" where
  "matchesSearch q f =
     (includes_str (toLowerCase (title f)) (toLowerCase q) \<or>
      (case description f of
         None \<Rightarrow> False
       | Some d \<Rightarrow> d \<noteq> [] \<and> includes_str (toLowerCase d) (toLowerCase q)))"

definition matchesTag :: "string \<Rightarrow> form \<Rightarrow> bool" where
  "matchesTag tag f =
     (tag = ''all'' \<or> (case tags f of None \<Rightarrow> False | Some ts \<Rightarrow> tag \<in> set ts))"

definition filteredForms :: "feed_state \<Rightarrow> form list" where
  "filteredForms s =
     filter (\<lambda>f. matchesSearch (searchTerm s) f \<and> matchesTag (filterTag s) f) (forms s)"

text \<open>
  The average of a form's ratings: the source computes it twice with the same
  expression, once as the sort key of \<open>'rating'\<close> and once for the card.
\<close>

definition averageRating :: "form \<Rightarrow> number" where
  "averageRating f =
     (if length (form_fills f) > 0
      then js_div (real_of_int (foldl (\<lambda>sum fill. sum + rating fill) 0 (form_fills f)))
                  (real (length (form_fills f)))
      else Fin 0)"

definition ratingKey :: "form \<Rightarrow> number" where
  "ratingKey a =
     (if length (form_fills a) > 0
      then js_div (real_of_int (foldl (\<lambda>sum fill. sum + rating fill) 0 (form_fills a)))
                  (real (length (form_fills a)))
      else Fin 0)"

text \<open>
  A string or null used as a condition holds when it is a string that is not empty;
  \<open>truthy\<close> gives that string. \<open>getTime\<close> stands for \<open>new Date(s).getTime()\<close>, which
  is \<open>NaN\<close> on a string that is no date.
\<close>

definition truthy :: "string option \<Rightarrow> string option" where
  "truthy v = (case v of None \<Rightarrow> None | Some t \<Rightarrow> if t = '''' then None else Some t)"

definition compareForms :: "(string \<Rightarrow> number) \<Rightarrow> string \<Rightarrow> form \<Rightarrow> form \<Rightarrow> number" where
  "compareForms getTime sort_by a b =
     (if sort_by = ''oldest'' then js_sub (getTime (created_at a)) (getTime (created_at b))
      else if sort_by = ''rating'' then js_sub (ratingKey b) (ratingKey a)
      else if sort_by = ''expiring'' then
        (case (truthy (expire_at a), truthy (expire_at b)) of
           (None, None) \<Rightarrow> Fin 0
         | (None, Some tb) \<Rightarrow> Fin 1
         | (Some ta, None) \<Rightarrow> Fin (- 1)
         | (Some ta, Some tb) \<Rightarrow> js_sub (getTime ta) (getTime tb))
      else js_sub (getTime (created_at b)) (getTime (created_at a)))"

definition sortedForms :: "(string \<Rightarrow> number) \<Rightarrow> feed_state \<Rightarrow> form list" where
  "sortedForms getTime s = js_sort (compareForms getTime (sortBy s)) (filteredForms s)"

text \<open>
  What the component renders: the spinner, the error card with its button, or the
  list of cards together with whether the card for an empty list is shown.
\<close>

datatype action = FetchForms

datatype button = Button string action

record form_card =
  card_id :: form_id
  card_title :: string
  card_description :: string
  card_tags :: "string list"
  createdAt :: string
  expireAt :: "string option"
  googleFormUrl :: string
  fillCount :: nat
  card_averageRating :: number

datatype feed_view =
    LoadingView
  | ErrorView string button
  | FeedView "form_card list" bool

definition formCard :: "form \<Rightarrow> form_card" where
  "formCard f =
     \<lparr>card_id = id_form f, card_title = title f,
      card_description = (case description f of None \<Rightarrow> '''' | Some d \<Rightarrow> d),
      card_tags = (case tags f of None \<Rightarrow> [] | Some ts \<Rightarrow> ts),
      createdAt = created_at f, expireAt = expire_at f, googleFormUrl = google_form_url f,
      fillCount = length (form_fills f),
      card_averageRating = averageRating f\<rparr>"

definition render :: "(string \<Rightarrow> number) \<Rightarrow> feed_state \<Rightarrow> feed_view" where
  "render getTime s =
     (if loading s then LoadingView
      else
        (case truthy (error s) of
           Some message \<Rightarrow> ErrorView message (Button ''Try Again'' FetchForms)
         | None \<Rightarrow>
             FeedView (map formCard (sortedForms getTime s))
                      (length (sortedForms getTime s) = 0 \<and> \<not> loading s)))"

section \<open>The leaderboard\<close>

record TopFiller =
  rank :: nat
  name :: string
  formsFilled :: nat
  points :: nat
  badges :: nat

record TopPoster =
  poster_rank :: nat
  poster_name :: string
  formsPosted :: nat
  totalResponses :: nat
  avgRating :: number

text \<open>The values of the two \<open>Record<string, ...>\<close> objects built from the fetched rows.\<close>

record filler_stat =
  stat_formsFilled :: nat
  stat_points :: nat
  stat_badges :: nat

record poster_stat =
  stat_formsPosted :: nat
  stat_totalResponses :: nat
  stat_avgRating :: number

text \<open>
  An object used as a dictionary is an association list in insertion order, which is
  the order \<open>Object.keys\<close> lists its keys in (the user ids are UUID strings, never
  integer-like keys or names of \<open>Object.prototype\<close>). \<open>ensure\<close> is
  \<open>if (!o[k]) o[k] = v\<close>, \<open>modify\<close> an update of \<open>o[k]\<close> in place.
\<close>

definition ensure :: "'k \<Rightarrow> 'v \<Rightarrow> ('k \<times> 'v) list \<Rightarrow> ('k \<times> 'v) list" where
  "ensure k v m = (if map_of m k = None then m @ [(k, v)] else m)"

definition modify :: "'k \<Rightarrow> ('v \<Rightarrow> 'v) \<Rightarrow> ('k \<times> 'v) list \<Rightarrow> ('k \<times> 'v) list" where
  "modify k g m = map (\<lambda>(k', v). if k' = k then (k', g v) else (k', v)) m"

text \<open>The five requests of the leaderboard.\<close>

record leaderboard_client =
  fills_user_ids :: "user_id list reply"
  profile_of :: "user_id \<Rightarrow> string reply"
  forms_user_ids :: "user_id list reply"
  forms_of_user :: "user_id \<Rightarrow> form_id list reply"
  ratings_of_forms :: "form_id list \<Rightarrow> int option list reply"

record leaderboard_state =
  topFillers :: "TopFiller list"
  topPosters :: "TopPoster list"
  lb_loading :: bool
  toasts :: "string list"

definition leaderboard_initial :: leaderboard_state where
  "leaderboard_initial = \<lparr>topFillers = [], topPosters = [], lb_loading = True, toasts = []\<rparr>"

definition fillerStep :: "(user_id \<times> filler_stat) list \<Rightarrow> user_id \<Rightarrow> (user_id \<times> filler_stat) list" where
  "fillerStep stats userId =
     modify userId
       (\<lambda>st. st\<lparr>stat_formsFilled := stat_formsFilled st + 1, stat_points := stat_points st + 5\<rparr>)
       (ensure userId \<lparr>stat_formsFilled = 0, stat_points = 0, stat_badges = 0\<rparr> stats)"

definition fillerStats :: "user_id list \<Rightarrow> (user_id \<times> filler_stat) list" where
  "fillerStats rows = foldl fillerStep [] rows"

text \<open>
  The loop over the filler ids. A rejected request leaves the loop for the
  \<open>catch\<close> block; a user without a profile is skipped.
\<close>

fun fillersWithNames ::
  "leaderboard_client \<Rightarrow> (user_id \<times> filler_stat) list \<Rightarrow> user_id list \<Rightarrow> failure + TopFiller list"
where
  "fillersWithNames c stats [] = Inr []"
| "fillersWithNames c stats (userId # rest) =
     (case profile_of c userId of
        Rejected e \<Rightarrow> Inl e
      | Reply profile profileError \<Rightarrow>
          (case profile of
             None \<Rightarrow> fillersWithNames c stats rest
           | Some nm \<Rightarrow>
               (case map_of stats userId of
                  None \<Rightarrow> Inl (ErrorInstance ''TypeError'')
                | Some st \<Rightarrow>
                    (case fillersWithNames c stats rest of
                       Inl e \<Rightarrow> Inl e
                     | Inr others \<Rightarrow>
                         Inr (\<lparr>rank = 0, name = nm,
                               formsFilled = stat_formsFilled st,
                               points = stat_points st, badges = 0\<rparr> # others)))))"

definition compareFillers :: "TopFiller \<Rightarrow> TopFiller \<Rightarrow> number" where
  "compareFillers a b = js_sub (Fin (real (formsFilled b))) (Fin (real (formsFilled a)))"

definition sortedFillers :: "TopFiller list \<Rightarrow> TopFiller list" where
  "sortedFillers fillers =
     map (\<lambda>(index, item). item\<lparr>rank := index + 1\<rparr>)
       (enumerate 0 (take 8 (js_sort compareFillers fillers)))"

definition posterStep :: "(user_id \<times> poster_stat) list \<Rightarrow> user_id \<Rightarrow> (user_id \<times> poster_stat) list" where
  "posterStep stats userId =
     modify userId (\<lambda>st. st\<lparr>stat_formsPosted := stat_formsPosted st + 1\<rparr>)
       (ensure userId
          \<lparr>stat_formsPosted = 0, stat_totalResponses = 0, stat_avgRating = Fin 0\<rparr> stats)"

definition posterStats :: "user_id list \<Rightarrow> (user_id \<times> poster_stat) list" where
  "posterStats rows = foldl posterStep [] rows"

text \<open>
  \<open>Number(x.toFixed(1))\<close>: the multiple of one tenth nearest to \<open>x\<close>, the larger
  one in magnitude when two are equally near; a non-finite number is itself.
\<close>

fun toFixed1 :: "number \<Rightarrow> number" where
  "toFixed1 (Fin x) =
     Fin (if x < 0 then - (real_of_int \<lfloor>- x * 10 + 1 / 2\<rfloor> / 10)
          else real_of_int \<lfloor>x * 10 + 1 / 2\<rfloor> / 10)"
| "toFixed1 n = n"

text \<open>The average over the fetched responses, as the loop body computes it.\<close>

definition responsesAverage :: "int option list \<Rightarrow> number" where
  "responsesAverage responses =
     (let ratingsWithValues = filter (\<lambda>r. r \<noteq> None) responses
      in if length ratingsWithValues > 0
         then js_div
                (real_of_int
                   (foldl (\<lambda>sum r. sum + (case r of None \<Rightarrow> 0 | Some x \<Rightarrow> if x = 0 then 0 else x))
                      0 ratingsWithValues))
                (real (length ratingsWithValues))
         else Fin 0)"

text \<open>\<open>totalResponses\<close> and \<open>avgRating\<close> of one poster.\<close>

definition posterResponses :: "leaderboard_client \<Rightarrow> user_id \<Rightarrow> failure + nat \<times> number" where
  "posterResponses c userId =
     (case forms_of_user c userId of
        Rejected e \<Rightarrow> Inl e
      | Reply userForms formsError \<Rightarrow>
          (case userForms of
             None \<Rightarrow> Inr (0, Fin 0)
           | Some formIds \<Rightarrow>
               (if length formIds > 0 then
                  (case ratings_of_forms c formIds of
                     Rejected e \<Rightarrow> Inl e
                   | Reply responses responsesError \<Rightarrow>
                       (case responses of
                          None \<Rightarrow> Inr (0, responsesAverage [])
                        | Some rs \<Rightarrow> Inr (length rs, responsesAverage rs)))
                else Inr (0, Fin 0))))"

fun postersWithNames ::
  "leaderboard_client \<Rightarrow> (user_id \<times> poster_stat) list \<Rightarrow> user_id list \<Rightarrow> failure + TopPoster list"
where
  "postersWithNames c stats [] = Inr []"
| "postersWithNames c stats (userId # rest) =
     (case profile_of c userId of
        Rejected e \<Rightarrow> Inl e
      | Reply profile profileError \<Rightarrow>
          (case profile of
             None \<Rightarrow> postersWithNames c stats rest
           | Some nm \<Rightarrow>
               (case posterResponses c userId of
                  Inl e \<Rightarrow> Inl e
                | Inr (cnt, avg) \<Rightarrow>
                    (case map_of stats userId of
                       None \<Rightarrow> Inl (ErrorInstance ''TypeError'')
                     | Some st \<Rightarrow>
                         (case postersWithNames c stats rest of
                            Inl e \<Rightarrow> Inl e
                          | Inr others \<Rightarrow>
                              Inr (\<lparr>poster_rank = 0, poster_name = nm,
                                    formsPosted = stat_formsPosted st,
                                    totalResponses = cnt,
                                    avgRating = toFixed1 avg\<rparr> # others))))))"

definition comparePosters :: "TopPoster \<Rightarrow> TopPoster \<Rightarrow> number" where
  "comparePosters a b = js_sub (Fin (real (formsPosted b))) (Fin (real (formsPosted a)))"

definition sortedPosters :: "TopPoster list \<Rightarrow> TopPoster list" where
  "sortedPosters posters =
     map (\<lambda>(index, item). item\<lparr>poster_rank := index + 1\<rparr>)
       (enumerate 0 (take 8 (js_sort comparePosters posters)))"

text \<open>The \<open>catch\<close> block of \<open>fetchLeaderboardData\<close>.\<close>

definition catchLeaderboard :: "leaderboard_state \<Rightarrow> leaderboard_state" where
  "catchLeaderboard s = s\<lparr>toasts := toasts s @ [''Failed to load leaderboard data'']\<rparr>"

definition fetchPosters :: "leaderboard_client \<Rightarrow> leaderboard_state \<Rightarrow> leaderboard_state" where
  "fetchPosters c s =
     (case forms_user_ids c of
        Rejected e \<Rightarrow> catchLeaderboard s
      | Reply postersData postersError \<Rightarrow>
          (case postersError of
             Some e \<Rightarrow> catchLeaderboard s
           | None \<Rightarrow>
               (let stats = posterStats (case postersData of None \<Rightarrow> [] | Some rows \<Rightarrow> rows)
                in case postersWithNames c stats (map fst stats) of
                     Inl e \<Rightarrow> catchLeaderboard s
                   | Inr posters \<Rightarrow> s\<lparr>topPosters := sortedPosters posters\<rparr>)))"

definition fetchLeaderboardData :: "leaderboard_client \<Rightarrow> leaderboard_state \<Rightarrow> leaderboard_state" where
  "fetchLeaderboardData c s =
     (let s1 = s\<lparr>lb_loading := True\<rparr>;
          s2 = (case fills_user_ids c of
                  Rejected e \<Rightarrow> catchLeaderboard s1
                | Reply fillersData fillersError \<Rightarrow>
                    (case fillersError of
                       Some e \<Rightarrow> catchLeaderboard s1
                     | None \<Rightarrow>
                         (let stats = fillerStats
                                (case fillersData of None \<Rightarrow> [] | Some rows \<Rightarrow> rows)
                          in case fillersWithNames c stats (map fst stats) of
                               Inl e \<Rightarrow> catchLeaderboard s1
                             | Inr fillers \<Rightarrow>
                                 fetchPosters c (s1\<lparr>topFillers := sortedFillers fillers\<rparr>))))
      in s2\<lparr>lb_loading := False\<rparr>)"



text \<open>
  The tables behind the requests, and a client that answers the five requests of the
  leaderboard from one state of them without failing: \<open>select\<close> returns the column of
  every row, \<open>eq\<close> and \<open>in\<close> keep the rows whose column has the value or one of the
  values, and \<open>maybeSingle\<close> gives the one row, null for none, and an error for several.
  The hosted backend is not part of the repository; this is what its request builders
  denote.
\<close>

record form_row =
  row_id :: form_id
  row_user_id :: user_id

record fill_row =
  fill_form_id :: form_id
  fill_user_id :: user_id
  fill_rating :: "int option"

record profile_row =
  profile_id :: user_id
  profile_name :: string

record database =
  forms_tbl :: "form_row list"
  form_fills_tbl :: "fill_row list"
  profiles_tbl :: "profile_row list"

definition maybeSingle :: "'a list \<Rightarrow> 'a reply" where
  "maybeSingle rows =
     (case rows of
        [] \<Rightarrow> Reply None None
      | [r] \<Rightarrow> Reply (Some r) None
      | _ \<Rightarrow> Reply None (Some (PlainObject ''multiple rows returned'')))"

definition db_client :: "database \<Rightarrow> leaderboard_client" where
  "db_client d =
     \<lparr>fills_user_ids = Reply (Some (map fill_user_id (form_fills_tbl d))) None,
      profile_of = (\<lambda>u. maybeSingle (map profile_name (filter (\<lambda>p. profile_id p = u) (profiles_tbl d)))),
      forms_user_ids = Reply (Some (map row_user_id (forms_tbl d))) None,
      forms_of_user = (\<lambda>u. Reply (Some (map row_id (filter (\<lambda>f. row_user_id f = u) (forms_tbl d)))) None),
      ratings_of_forms =
        (\<lambda>ids. Reply (Some (map fill_rating (filter (\<lambda>r. fill_form_id r \<in> set ids) (form_fills_tbl d)))) None)\<rparr>"

section \<open>The fill-and-rate modal\<close>

record form_fill_insert =
  ins_form_id :: form_id
  ins_user_id :: user_id
  ins_rating :: int
  ins_comment :: "string option"

record modal_state =
  modal_rating :: int
  modal_comment :: string
  hoveredRating :: int
  isSubmitting :: bool

definition modal_initial :: modal_state where
  "modal_initial = \<lparr>modal_rating = 0, modal_comment = '''', hoveredRating = 0, isSubmitting = False\<rparr>"

text \<open>What a handler does besides updating the state, in the order it does it.\<close>

datatype effect =
    ToastError string
  | ToastSuccess string
  | Insert form_fill_insert
  | OnFormFilled
  | OnClose

text \<open>
  \<open>String.prototype.trim\<close> on the ASCII white space: tab, line feed, vertical tab, form
  feed, carriage return and space.
\<close>

definition is_space :: "char \<Rightarrow> bool" where
  "is_space c = ((of_char c :: nat) \<in> {9, 10, 11, 12, 13, 32})"

definition trim :: "string \<Rightarrow> string" where
  "trim s = rev (dropWhile is_space (rev (dropWhile is_space s)))"

definition failureMessage :: "failure \<Rightarrow> string" where
  "failureMessage e = (case e of ErrorInstance m \<Rightarrow> m | PlainObject m \<Rightarrow> m)"

definition handleRatingClick :: "int \<Rightarrow> modal_state \<Rightarrow> modal_state" where
  "handleRatingClick v s = s\<lparr>modal_rating := v\<rparr>"

text \<open>The values of the five star buttons, each of which calls \<open>handleRatingClick\<close> with its value.\<close>

definition star_values :: "int list" where
  "star_values = [1, 2, 3, 4, 5]"

definition handleSubmit ::
  "(form_fill_insert \<Rightarrow> unit reply) \<Rightarrow> user_id option \<Rightarrow> form_id \<Rightarrow> modal_state
     \<Rightarrow> modal_state \<times> effect list"
where
  "handleSubmit insert_fill user formId s =
     (case user of
        None \<Rightarrow> (s, [ToastError ''Please log in to fill forms''])
      | Some uid \<Rightarrow>
          (if modal_rating s = 0 then (s, [ToastError ''Please provide a rating''])
           else
             (let row = \<lparr>ins_form_id = formId, ins_user_id = uid, ins_rating = modal_rating s,
                         ins_comment = (if trim (modal_comment s) = [] then None
                                        else Some (trim (modal_comment s)))\<rparr>;
                  failed = (\<lambda>e. (s\<lparr>isSubmitting := False\<rparr>,
                                 [Insert row,
                                  ToastError (''Failed to submit feedback: '' @ failureMessage e)]))
              in case insert_fill row of
                   Rejected e \<Rightarrow> failed e
                 | Reply d err \<Rightarrow>
                     (case err of
                        Some e \<Rightarrow> failed e
                      | None \<Rightarrow>
                          (s\<lparr>modal_rating := 0, modal_comment := '''', isSubmitting := False\<rparr>,
                           [Insert row, ToastSuccess ''Thank you for your feedback!'',
                            OnFormFilled, OnClose])))))"

definition handleClose :: "modal_state \<Rightarrow> modal_state \<times> effect list" where
  "handleClose s = (s\<lparr>modal_rating := 0, modal_comment := ''''\<rparr>, [OnClose])"

text \<open>
  The states the modal can be in: it opens in the initial state, and each event of the
  component (a click on a star, the pointer over a star or off it, an edit of the
  comment, a submit, a close) leads from one state to the next.
\<close>

inductive modal_reachable ::
  "(form_fill_insert \<Rightarrow> unit reply) \<Rightarrow> user_id option \<Rightarrow> form_id \<Rightarrow> modal_state \<Rightarrow> bool"
  for insert_fill :: "form_fill_insert \<Rightarrow> unit reply" and user :: "user_id option" and formId :: form_id
where
  opened: "modal_reachable insert_fill user formId modal_initial"
| star_clicked:
    "modal_reachable insert_fill user formId s \<Longrightarrow> v \<in> set star_values \<Longrightarrow>
     modal_reachable insert_fill user formId (handleRatingClick v s)"
| star_hovered:
    "modal_reachable insert_fill user formId s \<Longrightarrow> h \<in> set (0 # star_values) \<Longrightarrow>
     modal_reachable insert_fill user formId (s\<lparr>hoveredRating := h\<rparr>)"
| comment_changed:
    "modal_reachable insert_fill user formId s \<Longrightarrow>
     modal_reachable insert_fill user formId (s\<lparr>modal_comment := t\<rparr>)"
| submitted:
    "modal_reachable insert_fill user formId s \<Longrightarrow>
     modal_reachable insert_fill user formId (fst (handleSubmit insert_fill user formId s))"
| closed:
    "modal_reachable insert_fill user formId s \<Longrightarrow>
     modal_reachable insert_fill user formId (fst (handleClose s))"

section \<open>The navigation bar\<close>

text \<open>
  The state of the component, the browser's storage (a map from keys to strings:
  \<open>getItem\<close> reads it, \<open>setItem\<close> stores a string under a key) and the class list of the
  document element.
\<close>

record nav_state =
  isDarkMode :: bool
  localStorage :: "string \<rightharpoonup> string"
  classList :: "string list"

definition classList_add :: "string \<Rightarrow> string list \<Rightarrow> string list" where
  "classList_add c cl = (if c \<in> set cl then cl else cl @ [c])"

definition classList_remove :: "string \<Rightarrow> string list \<Rightarrow> string list" where
  "classList_remove c cl = filter (\<lambda>x. x \<noteq> c) cl"

definition bool_toString :: "bool \<Rightarrow> string" where
  "bool_toString b = (if b then ''true'' else ''false'')"

text \<open>The effect that runs once after the component is mounted.\<close>

definition initDarkMode :: "nav_state \<Rightarrow> nav_state" where
  "initDarkMode s =
     (let savedDarkMode = (localStorage s ''darkMode'' = Some ''true'')
      in s\<lparr>isDarkMode := savedDarkMode,
           classList := (if savedDarkMode then classList_add ''dark'' (classList s)
                         else classList s)\<rparr>)"

definition toggleDarkMode :: "nav_state \<Rightarrow> nav_state" where
  "toggleDarkMode s =
     (let newDarkMode = \<not> isDarkMode s
      in s\<lparr>isDarkMode := newDarkMode,
           localStorage := (localStorage s)(''darkMode'' \<mapsto> bool_toString newDarkMode),
           classList := (if newDarkMode then classList_add ''dark'' (classList s)
                         else classList_remove ''dark'' (classList s))\<rparr>)"

text \<open>
  A page load: the component state and the document are fresh, the storage is what
  the browser kept.
\<close>

definition startup :: "(string \<rightharpoonup> string) \<Rightarrow> nav_state" where
  "startup storage = initDarkMode \<lparr>isDarkMode = False, localStorage = storage, classList = []\<rparr>"

section \<open>Notions of the specification\<close>

text \<open>The arithmetic mean of a list of ratings: their sum divided by their number.\<close>

definition arithmetic_mean :: "int list \<Rightarrow> real" where
  "arithmetic_mean xs = real_of_int (sum_list xs) / real (length xs)"




definition mean_or_zero :: "int list \<Rightarrow> real" where
  "mean_or_zero xs = (if xs = [] then 0 else arithmetic_mean xs)"

section \<open>Example inputs\<close>

definition survey_form :: form where
  "survey_form =
     \<lparr>id_form = ''f1'', title = ''Campus Survey'', description = Some ''Ten questions'',
      google_form_url = ''https://forms.example/1'', tags = Some [''survey''],
      created_at = ''2025-01-02'', expire_at = None, user_id = ''u1'', profiles = None,
      form_fills = [\<lparr>rating = 4\<rparr>, \<lparr>rating = 5\<rparr>]\<rparr>"

definition feedback_form :: form where
  "feedback_form =
     \<lparr>id_form = ''f2'', title = ''Course feedback'', description = None,
      google_form_url = ''https://forms.example/2'', tags = None,
      created_at = ''2025-01-01'', expire_at = None, user_id = ''u2'', profiles = None,
      form_fills = [\<lparr>rating = 3\<rparr>]\<rparr>"

definition unparsed :: "string \<Rightarrow> number" where
  "unparsed s = NaN"

definition expired_token_client :: feed_client where
  "expired_token_client =
     \<lparr>select_forms = Reply None (Some (PlainObject ''JWT expired'')),
      select_profile = (\<lambda>u. Reply None None)\<rparr>"

definition nameless_error_client :: feed_client where
  "nameless_error_client =
     \<lparr>select_forms = Rejected (ErrorInstance ''''),
      select_profile = (\<lambda>u. Reply None None)\<rparr>"

definition offline_client :: feed_client where
  "offline_client =
     \<lparr>select_forms = Rejected (ErrorInstance ''Failed to fetch''),
      select_profile = (\<lambda>u. Reply None None)\<rparr>"

definition no_profiles_client :: feed_client where
  "no_profiles_client =
     \<lparr>select_forms = Reply (Some [survey_form]) None,
      select_profile = (\<lambda>u. Reply None (Some (PlainObject ''permission denied'')))\<rparr>"

definition campus_db :: database where
  "campus_db =
     \<lparr>forms_tbl =
        [\<lparr>row_id = ''f1'', row_user_id = ''u1''\<rparr>, \<lparr>row_id = ''f2'', row_user_id = ''u2''\<rparr>],
      form_fills_tbl =
        [\<lparr>fill_form_id = ''f1'', fill_user_id = ''u2'', fill_rating = Some 4\<rparr>,
         \<lparr>fill_form_id = ''f1'', fill_user_id = ''u3'', fill_rating = Some 5\<rparr>,
         \<lparr>fill_form_id = ''f1'', fill_user_id = ''u2'', fill_rating = Some 5\<rparr>],
      profiles_tbl =
        [\<lparr>profile_id = ''u1'', profile_name = ''Ann''\<rparr>,
         \<lparr>profile_id = ''u2'', profile_name = ''Bob''\<rparr>]\<rparr>"

definition unfilled_form :: form where
  "unfilled_form =
     \<lparr>id_form = ''f3'', title = ''Reading habits'', description = Some '''',
      google_form_url = ''forms.example/3'', tags = Some [],
      created_at = ''2025-01-03'', expire_at = Some ''2025-02-01'', user_id = ''u1'',
      profiles = None, form_fills = []\<rparr>"

section \<open>Sorting, summing and searching\<close>

lemma foldl_rating: "foldl (\<lambda>sum fill. sum + rating fill) a fs = a + sum_list (map rating fs)"
  by (induction fs arbitrary: a) auto

lemma mset_js_insert: "mset (js_insert cmp x xs) = add_mset x (mset xs)"
  by (induction xs) auto

lemma mset_js_sort: "mset (js_sort cmp xs) = mset xs"
  unfolding js_sort_def by (induction xs) (auto simp: mset_js_insert)

lemma set_js_insert: "set (js_insert cmp x xs) = insert x (set xs)"
  by (induction xs) auto

lemma sorted_js_insert:
  assumes "\<And>a b. positive (cmp a b) = (k a < (k b :: 'k :: linorder))"
    and "sorted_wrt (\<lambda>a b. k b \<le> k a) xs"
  shows "sorted_wrt (\<lambda>a b. k b \<le> k a) (js_insert cmp x xs)"
  using assms(2) by (induction xs) (auto simp: assms(1) set_js_insert)

lemma sorted_js_sort:
  assumes "\<And>a b. positive (cmp a b) = (k a < (k b :: 'k :: linorder))"
  shows "sorted_wrt (\<lambda>a b. k b \<le> k a) (js_sort cmp xs)"
  unfolding js_sort_def by (induction xs) (auto intro: sorted_js_insert [OF assms])



section \<open>The feed: averages\<close>

lemma averageRating_mean:
  "form_fills f \<noteq> [] \<Longrightarrow> averageRating f = Fin (arithmetic_mean (map rating (form_fills f)))"
  by (simp add: averageRating_def js_div_def foldl_rating arithmetic_mean_def)

lemma ratingKey_mean:
  "form_fills f \<noteq> [] \<Longrightarrow> ratingKey f = Fin (arithmetic_mean (map rating (form_fills f)))"
  by (simp add: ratingKey_def js_div_def foldl_rating arithmetic_mean_def)

text \<open>
  Claim C1. For a form with at least one fill, the average the feed computes is the
  arithmetic mean of the ratings of its fills: in the value handed to the form card,
  and in the key of the \<open>'rating'\<close> ordering, whose comparator on two such forms is the
  difference of their means.
\<close>

theorem feed_average_is_mean:
  assumes "form_fills f \<noteq> []"
  shows "averageRating f = Fin (arithmetic_mean (map rating (form_fills f))) \<and>
         card_averageRating (formCard f) = Fin (arithmetic_mean (map rating (form_fills f))) \<and>
         ratingKey f = Fin (arithmetic_mean (map rating (form_fills f))) \<and>
         (form_fills g \<noteq> [] \<longrightarrow>
            compareForms getTime ''rating'' f g =
              Fin (arithmetic_mean (map rating (form_fills g)) -
                   arithmetic_mean (map rating (form_fills f))))"
  using assms by (simp add: averageRating_mean ratingKey_mean formCard_def compareForms_def)

theorem feed_average_is_mean_witness:
  "form_fills survey_form \<noteq> [] \<and> form_fills feedback_form \<noteq> [] \<and>
   averageRating survey_form = Fin (9 / 2) \<and>
   card_averageRating (formCard survey_form) = Fin (9 / 2) \<and>
   compareForms unparsed ''rating'' survey_form feedback_form = Fin (3 - 9 / 2)"
  using feed_average_is_mean [of survey_form feedback_form unparsed]
  by (simp add: survey_form_def feedback_form_def arithmetic_mean_def)

section \<open>The feed: filtering\<close>





section \<open>The feed: failures\<close>

lemma fetchForms_caught:
  assumes "select_forms c = Rejected e \<or> select_forms c = Reply d (Some e)"
  shows "fetchForms c s = s\<lparr>loading := False, error := Some (failureText e)\<rparr>"
  using assms by (auto simp: fetchForms_def catchForms_def Let_def)

text \<open>
  Claim C4, as amended. When the forms request fails (the promise rejects, or the reply
  carries an error), the error state holds the failure's own message if the failure is
  an \<open>Error\<close> instance and the fixed text \<open>Failed to load forms\<close> otherwise; the forms
  held before, the search term, the ordering and the tag filter are unchanged and
  loading is over; and whenever the stored text is not empty the component renders the
  error view with that text and the \<open>Try Again\<close> button, which fetches again.
\<close>

theorem fetchForms_failure:
  assumes "select_forms c = Rejected e \<or> select_forms c = Reply d (Some e)"
  shows "error (fetchForms c s) =
           Some (case e of ErrorInstance m \<Rightarrow> m | PlainObject m \<Rightarrow> ''Failed to load forms'') \<and>
         forms (fetchForms c s) = forms s \<and>
         searchTerm (fetchForms c s) = searchTerm s \<and>
         sortBy (fetchForms c s) = sortBy s \<and>
         filterTag (fetchForms c s) = filterTag s \<and>
         loading (fetchForms c s) = False \<and>
         (failureText e \<noteq> '''' \<longrightarrow>
            render getTime (fetchForms c s) =
              ErrorView (failureText e) (Button ''Try Again'' FetchForms))"
  by (simp add: fetchForms_caught [OF assms] failureText_def render_def truthy_def)

theorem fetchForms_failure_witness:
  "select_forms offline_client = Rejected (ErrorInstance ''Failed to fetch'') \<and>
   error (fetchForms offline_client feed_initial) = Some ''Failed to fetch'' \<and>
   forms (fetchForms offline_client feed_initial) = forms feed_initial \<and>
   render unparsed (fetchForms offline_client feed_initial) =
     ErrorView ''Failed to fetch'' (Button ''Try Again'' FetchForms)"
  using fetchForms_failure [of offline_client "ErrorInstance ''Failed to fetch''" None feed_initial unparsed]
  by (simp add: offline_client_def failureText_def)

text \<open>
  Claim C4 as stated fails: a reply whose error is a plain object with the message
  \<open>JWT expired\<close> leaves \<open>Failed to load forms\<close> in the error state, not the error's
  message.
\<close>

theorem fetchForms_message_counterexample:
  "select_forms expired_token_client = Reply None (Some (PlainObject ''JWT expired'')) \<and>
   error (fetchForms expired_token_client feed_initial) = Some ''Failed to load forms'' \<and>
   error (fetchForms expired_token_client feed_initial) \<noteq> Some ''JWT expired''"
  by (simp add: expired_token_client_def fetchForms_def catchForms_def failureText_def)

text \<open>
  A failure that is an \<open>Error\<close> instance with an empty message is stored as the empty
  string, which the test \<open>if (error)\<close> takes for no error: the feed is rendered.
\<close>

lemma fetchForms_empty_message:
  "error (fetchForms nameless_error_client feed_initial) = Some '''' \<and>
   render unparsed (fetchForms nameless_error_client feed_initial) = FeedView [] True"
  by (simp add: nameless_error_client_def fetchForms_def catchForms_def failureText_def
      render_def truthy_def feed_initial_def sortedForms_def filteredForms_def js_sort_def)

text \<open>
  Claim C5 as stated fails: when every profile lookup returns an error, the error state
  stays null and the form is listed under the name \<open>Unknown User\<close>.
\<close>

theorem profile_failure_counterexample:
  "select_profile no_profiles_client (user_id survey_form) =
     Reply None (Some (PlainObject ''permission denied'')) \<and>
   error (fetchForms no_profiles_client feed_initial) = None \<and>
   forms (fetchForms no_profiles_client feed_initial) =
     [survey_form\<lparr>profiles := Some ''Unknown User''\<rparr>]"
  by (simp add: no_profiles_client_def fetchForms_def withProfile_def feed_initial_def)

lemma withProfile_rest: "(withProfile c f)\<lparr>profiles := p\<rparr> = f\<lparr>profiles := p\<rparr>"
  by (simp add: withProfile_def split: reply.splits option.splits)

lemma withProfile_unknown:
  "select_profile c (user_id f) = Rejected e \<or> select_profile c (user_id f) = Reply None pe
     \<Longrightarrow> profiles (withProfile c f) = Some ''Unknown User''"
  by (auto simp: withProfile_def)

lemma fetchForms_loaded:
  assumes "select_forms c = Reply (Some rows) None"
  shows "fetchForms c s = s\<lparr>loading := False, error := None, forms := map (withProfile c) rows\<rparr>"
  using assms by (cases "rows = []") (simp_all add: fetchForms_def)

text \<open>
  Claim C5, as amended. A failure of the forms request is surfaced in the error state.
  A failure of a profile lookup is not: when the forms request succeeds the error state
  is null whatever the lookups return, every form of the reply is kept in its place,
  and a form whose lookup rejected or returned no profile is given the name
  \<open>Unknown User\<close>.
\<close>

theorem feed_failures_surface:
  "((select_forms c = Rejected e \<or> select_forms c = Reply d (Some e)) \<longrightarrow>
      error (fetchForms c s) = Some (failureText e)) \<and>
   (select_forms c = Reply (Some rows) None \<longrightarrow>
      error (fetchForms c s) = None \<and>
      map (\<lambda>f. f\<lparr>profiles := None\<rparr>) (forms (fetchForms c s)) =
        map (\<lambda>f. f\<lparr>profiles := None\<rparr>) rows \<and>
      (\<forall>i < length rows.
         (select_profile c (user_id (rows ! i)) = Rejected e' \<or>
          select_profile c (user_id (rows ! i)) = Reply None pe) \<longrightarrow>
         profiles (forms (fetchForms c s) ! i) = Some ''Unknown User''))"
proof (intro conjI impI)
  assume "select_forms c = Rejected e \<or> select_forms c = Reply d (Some e)"
  then show "error (fetchForms c s) = Some (failureText e)"
    by (simp add: fetchForms_caught)
next
  assume ok: "select_forms c = Reply (Some rows) None"
  show "error (fetchForms c s) = None"
    by (simp add: fetchForms_loaded [OF ok])
  show "map (\<lambda>f. f\<lparr>profiles := None\<rparr>) (forms (fetchForms c s)) =
        map (\<lambda>f. f\<lparr>profiles := None\<rparr>) rows"
    by (simp add: fetchForms_loaded [OF ok] withProfile_rest)
  show "\<forall>i < length rows.
         (select_profile c (user_id (rows ! i)) = Rejected e' \<or>
          select_profile c (user_id (rows ! i)) = Reply None pe) \<longrightarrow>
         profiles (forms (fetchForms c s) ! i) = Some ''Unknown User''"
    by (simp add: fetchForms_loaded [OF ok] withProfile_unknown)
qed

theorem feed_failures_surface_witness:
  "select_forms no_profiles_client = Reply (Some [survey_form]) None \<and>
   (0::nat) < length [survey_form] \<and>
   select_profile no_profiles_client (user_id ([survey_form] ! 0)) =
     Reply None (Some (PlainObject ''permission denied'')) \<and>
   error (fetchForms no_profiles_client feed_initial) = None \<and>
   profiles (forms (fetchForms no_profiles_client feed_initial) ! 0) = Some ''Unknown User'' \<and>
   select_forms offline_client = Rejected (ErrorInstance ''Failed to fetch'') \<and>
   error (fetchForms offline_client feed_initial) = Some ''Failed to fetch''"
  using feed_failures_surface [of no_profiles_client "PlainObject []" None feed_initial "[survey_form]"
      "PlainObject []" "Some (PlainObject ''permission denied'')"]
    feed_failures_surface [of offline_client "ErrorInstance ''Failed to fetch''" None feed_initial "[]"
      "PlainObject []" None]
  by (simp add: no_profiles_client_def offline_client_def failureText_def)

section \<open>The navigation bar: dark mode\<close>

text \<open>
  Claim C6. A toggle writes \<open>true\<close> or \<open>false\<close>, the text of the new mode, under the key
  \<open>darkMode\<close>; the initialisation enables dark mode exactly when the stored text is
  \<open>true\<close>; so a page load after a toggle restores the mode of that toggle, and the
  \<open>dark\<close> class of the document with it.
\<close>

theorem dark_mode_round_trip:
  "localStorage (toggleDarkMode s) ''darkMode'' =
     Some (if isDarkMode (toggleDarkMode s) then ''true'' else ''false'') \<and>
   isDarkMode (toggleDarkMode s) = (\<not> isDarkMode s) \<and>
   isDarkMode (initDarkMode s) = (localStorage s ''darkMode'' = Some ''true'') \<and>
   isDarkMode (startup storage) = (storage ''darkMode'' = Some ''true'') \<and>
   isDarkMode (startup (localStorage (toggleDarkMode s))) = isDarkMode (toggleDarkMode s) \<and>
   (''dark'' \<in> set (classList (startup (localStorage (toggleDarkMode s))))) =
     (''dark'' \<in> set (classList (toggleDarkMode s)))"
  by (simp add: toggleDarkMode_def initDarkMode_def startup_def bool_toString_def Let_def
      classList_add_def classList_remove_def)

section \<open>The fill-and-rate modal: submitting\<close>

lemma handleSubmit_rating:
  "modal_rating (fst (handleSubmit ins user fid s)) = modal_rating s \<or>
   modal_rating (fst (handleSubmit ins user fid s)) = 0"
  by (simp add: handleSubmit_def Let_def split: option.splits reply.splits)

lemma reachable_rating:
  "modal_reachable ins user fid s \<Longrightarrow> 0 \<le> modal_rating s \<and> modal_rating s \<le> 5"
proof (induction rule: modal_reachable.induct)
  case (submitted s)
  then show ?case using handleSubmit_rating [of ins user fid s] by auto
qed (auto simp: modal_initial_def handleRatingClick_def star_values_def handleClose_def)

text \<open>
  Claim C9. A submit attempts an insert exactly when a user is logged in and the rating
  is not 0; otherwise it leaves the state as it is and does nothing but show one error
  notification. The row of an attempted insert carries the user, the form and the
  rating of the state. A click on a star button sets the rating to the value of the
  button, one of 1 to 5; so in every state the modal can reach an attempted insert has
  a rating from 1 to 5.
\<close>

theorem submit_guard:
  "((\<exists>row. Insert row \<in> set (snd (handleSubmit ins user fid s))) =
      (user \<noteq> None \<and> modal_rating s \<noteq> 0)) \<and>
   ((user = None \<or> modal_rating s = 0) \<longrightarrow>
      fst (handleSubmit ins user fid s) = s \<and>
      (\<exists>msg. snd (handleSubmit ins user fid s) = [ToastError msg])) \<and>
   (\<forall>row. Insert row \<in> set (snd (handleSubmit ins user fid s)) \<longrightarrow>
      Some (ins_user_id row) = user \<and> ins_form_id row = fid \<and> ins_rating row = modal_rating s) \<and>
   (\<forall>v \<in> set star_values. modal_rating (handleRatingClick v s) = v \<and> 1 \<le> v \<and> v \<le> 5) \<and>
   (modal_reachable ins user fid s \<longrightarrow>
      (\<forall>row. Insert row \<in> set (snd (handleSubmit ins user fid s)) \<longrightarrow>
         1 \<le> ins_rating row \<and> ins_rating row \<le> 5))"
proof (intro conjI)
  show "(\<exists>row. Insert row \<in> set (snd (handleSubmit ins user fid s))) =
      (user \<noteq> None \<and> modal_rating s \<noteq> 0)"
    by (auto simp: handleSubmit_def Let_def split: option.splits reply.splits)
  show "(user = None \<or> modal_rating s = 0) \<longrightarrow>
      fst (handleSubmit ins user fid s) = s \<and>
      (\<exists>msg. snd (handleSubmit ins user fid s) = [ToastError msg])"
    by (auto simp: handleSubmit_def Let_def split: option.splits)
  show rows: "\<forall>row. Insert row \<in> set (snd (handleSubmit ins user fid s)) \<longrightarrow>
      Some (ins_user_id row) = user \<and> ins_form_id row = fid \<and> ins_rating row = modal_rating s"
    by (auto simp: handleSubmit_def Let_def split: option.splits reply.splits if_splits)
  show "\<forall>v \<in> set star_values. modal_rating (handleRatingClick v s) = v \<and> 1 \<le> v \<and> v \<le> 5"
    by (auto simp: star_values_def handleRatingClick_def)
  show "modal_reachable ins user fid s \<longrightarrow>
      (\<forall>row. Insert row \<in> set (snd (handleSubmit ins user fid s)) \<longrightarrow>
         1 \<le> ins_rating row \<and> ins_rating row \<le> 5)"
  proof (intro impI allI)
    fix row
    assume r: "modal_reachable ins user fid s"
      and i: "Insert row \<in> set (snd (handleSubmit ins user fid s))"
    from i rows have eq: "ins_rating row = modal_rating s" by blast
    from i have "modal_rating s \<noteq> 0"
      by (auto simp: handleSubmit_def Let_def split: option.splits if_splits)
    with reachable_rating [OF r] eq show "1 \<le> ins_rating row \<and> ins_rating row \<le> 5" by simp
  qed
qed

theorem submit_guard_witness:
  "(\<exists>row. Insert row \<in> set (snd (handleSubmit (\<lambda>r. Reply None None) (Some ''u1'') ''f1''
        (handleRatingClick 4 modal_initial)))) \<and>
   (4::int) \<in> set star_values \<and>
   modal_rating (handleRatingClick 4 modal_initial) = 4 \<and>
   modal_reachable (\<lambda>r. Reply None None) (Some ''u1'') ''f1'' (handleRatingClick 4 modal_initial) \<and>
   Insert \<lparr>ins_form_id = ''f1'', ins_user_id = ''u1'', ins_rating = 4, ins_comment = None\<rparr> \<in>
     set (snd (handleSubmit (\<lambda>r. Reply None None) (Some ''u1'') ''f1''
        (handleRatingClick 4 modal_initial))) \<and>
   modal_rating modal_initial = 0 \<and>
   fst (handleSubmit (\<lambda>r. Reply None None) (Some ''u1'') ''f1'' modal_initial) = modal_initial \<and>
   (\<exists>msg. snd (handleSubmit (\<lambda>r. Reply None None) (Some ''u1'') ''f1'' modal_initial) =
      [ToastError msg])"
proof -
  have four: "(4::int) \<in> set star_values"
    by (simp add: star_values_def)
  have reach: "modal_reachable (\<lambda>r. Reply None None) (Some ''u1'') ''f1''
      (handleRatingClick 4 modal_initial)"
    by (rule modal_reachable.star_clicked [OF modal_reachable.opened four])
  have row: "Insert \<lparr>ins_form_id = ''f1'', ins_user_id = ''u1'', ins_rating = 4, ins_comment = None\<rparr> \<in>
     set (snd (handleSubmit (\<lambda>r. Reply None None) (Some ''u1'') ''f1''
        (handleRatingClick 4 modal_initial)))"
    by (simp add: handleSubmit_def handleRatingClick_def modal_initial_def trim_def)
  show ?thesis
    using submit_guard [of "\<lambda>r. Reply None None" "Some ''u1''" "''f1''" "handleRatingClick 4 modal_initial"]
      submit_guard [of "\<lambda>r. Reply None None" "Some ''u1''" "''f1''" modal_initial]
      four reach row
    by (simp add: handleRatingClick_def modal_initial_def)
qed

section \<open>The leaderboard: counting\<close>

lemma map_of_ensure:
  "map_of (ensure k v m) k' =
     (case map_of m k' of Some x \<Rightarrow> Some x | None \<Rightarrow> if k' = k then Some v else None)"
  by (auto simp: ensure_def map_add_def split: option.splits)

lemma map_of_modify:
  "map_of (modify k g m) k' = (if k' = k then map_option g (map_of m k) else map_of m k')"
  by (induction m) (auto simp: modify_def)

lemma map_of_fillerStep:
  "map_of (fillerStep stats u) k =
     (if k = u
      then Some (case map_of stats u of
                   None \<Rightarrow> \<lparr>stat_formsFilled = 1, stat_points = 5, stat_badges = 0\<rparr>
                 | Some st \<Rightarrow> st\<lparr>stat_formsFilled := stat_formsFilled st + 1,
                                 stat_points := stat_points st + 5\<rparr>)
      else map_of stats k)"
  by (auto simp: fillerStep_def map_of_modify map_of_ensure split: option.splits)

lemma map_of_foldl_fillerStep:
  "map_of (foldl fillerStep acc rows) u =
     (case map_of acc u of
        None \<Rightarrow> if u \<in> set rows
                 then Some \<lparr>stat_formsFilled = count_list rows u,
                            stat_points = 5 * count_list rows u, stat_badges = 0\<rparr>
                 else None
      | Some st \<Rightarrow> Some (st\<lparr>stat_formsFilled := stat_formsFilled st + count_list rows u,
                              stat_points := stat_points st + 5 * count_list rows u\<rparr>))"
proof (induction rows arbitrary: acc)
  case Nil
  then show ?case by (simp split: option.splits)
next
  case (Cons r rows)
  show ?case
    by (simp add: Cons.IH map_of_fillerStep count_list_0_iff split: option.splits)
qed

lemma map_of_fillerStats:
  "map_of (fillerStats rows) u =
     (if u \<in> set rows
      then Some \<lparr>stat_formsFilled = count_list rows u,
                 stat_points = 5 * count_list rows u, stat_badges = 0\<rparr>
      else None)"
  by (simp add: fillerStats_def map_of_foldl_fillerStep)

section \<open>The leaderboard: ranking\<close>

lemma set_js_sort: "set (js_sort cmp xs) = set xs"
  using mset_js_sort [of cmp xs] by (metis set_mset_mset)




lemma indexed_map_keeps:
  assumes "\<And>i x. g (upd i x) = g x"
  shows "map g (map (\<lambda>(i, x). upd i x) (enumerate n xs)) = map g xs"
proof -
  have "map g (map (\<lambda>(i, x). upd i x) (enumerate n xs)) = map (g \<circ> snd) (enumerate n xs)"
    by (simp add: comp_def case_prod_beta assms)
  also have "\<dots> = map g xs"
    by (simp only: map_map [symmetric]) (simp add: enumerate_eq_zip)
  finally show ?thesis .
qed



text \<open>What a cut after the first \<open>n\<close> drops never has a larger count than what it keeps.\<close>

lemma cut_off_below:
  assumes "\<And>a b. positive (cmp a b) = (k a < (k b :: nat))"
    and "x \<in> set (take n (js_sort cmp xs))" and "y \<in> set (drop n (js_sort cmp xs))"
  shows "k y \<le> k x"
proof -
  have "sorted_wrt (\<lambda>a b. k b \<le> k a) (take n (js_sort cmp xs) @ drop n (js_sort cmp xs))"
    by (simp add: sorted_js_sort assms(1))
  then show ?thesis using assms(2,3) unfolding sorted_wrt_append by blast
qed

lemma sortedFillers_unranked:
  "map (\<lambda>e. e\<lparr>rank := 0\<rparr>) (sortedFillers fl) =
   map (\<lambda>e. e\<lparr>rank := 0\<rparr>) (take 8 (js_sort compareFillers fl))"
  unfolding sortedFillers_def
  by (rule indexed_map_keeps [where upd = "\<lambda>i x. x\<lparr>rank := i + 1\<rparr>"]) simp





lemma sortedFillers_from:
  assumes "e \<in> set (sortedFillers fl)"
  shows "\<exists>e0 \<in> set fl. e\<lparr>rank := 0\<rparr> = e0\<lparr>rank := 0\<rparr>"
proof -
  from assms have "e\<lparr>rank := 0\<rparr> \<in> set (map (\<lambda>e. e\<lparr>rank := 0\<rparr>) (sortedFillers fl))" by simp
  then have "e\<lparr>rank := 0\<rparr> \<in> set (map (\<lambda>e. e\<lparr>rank := 0\<rparr>) (take 8 (js_sort compareFillers fl)))"
    by (simp only: sortedFillers_unranked)
  then obtain e0 where "e0 \<in> set (take 8 (js_sort compareFillers fl))" "e\<lparr>rank := 0\<rparr> = e0\<lparr>rank := 0\<rparr>"
    by auto
  moreover from this have "e0 \<in> set fl" using set_js_sort [of compareFillers fl]
    by (metis in_set_takeD)
  ultimately show ?thesis by blast
qed

lemma sortedPosters_unranked:
  "map (\<lambda>e. e\<lparr>poster_rank := 0\<rparr>) (sortedPosters pl) =
   map (\<lambda>e. e\<lparr>poster_rank := 0\<rparr>) (take 8 (js_sort comparePosters pl))"
  unfolding sortedPosters_def
  by (rule indexed_map_keeps [where upd = "\<lambda>i x. x\<lparr>poster_rank := i + 1\<rparr>"]) simp





lemma sortedPosters_from:
  assumes "e \<in> set (sortedPosters pl)"
  shows "\<exists>e0 \<in> set pl. e\<lparr>poster_rank := 0\<rparr> = e0\<lparr>poster_rank := 0\<rparr>"
proof -
  from assms have "e\<lparr>poster_rank := 0\<rparr> \<in> set (map (\<lambda>e. e\<lparr>poster_rank := 0\<rparr>) (sortedPosters pl))"
    by simp
  then have "e\<lparr>poster_rank := 0\<rparr> \<in>
      set (map (\<lambda>e. e\<lparr>poster_rank := 0\<rparr>) (take 8 (js_sort comparePosters pl)))"
    by (simp only: sortedPosters_unranked)
  then obtain e0 where "e0 \<in> set (take 8 (js_sort comparePosters pl))"
      "e\<lparr>poster_rank := 0\<rparr> = e0\<lparr>poster_rank := 0\<rparr>"
    by auto
  moreover from this have "e0 \<in> set pl" using set_js_sort [of comparePosters pl]
    by (metis in_set_takeD)
  ultimately show ?thesis by blast
qed

lemma topFillers_fetchPosters: "topFillers (fetchPosters c s) = topFillers s"
  by (simp add: fetchPosters_def catchLeaderboard_def Let_def split: reply.splits option.splits sum.splits)

lemma topPosters_fetchPosters:
  "topPosters (fetchPosters c s) = topPosters s \<or>
   (\<exists>postersData posters.
      forms_user_ids c = Reply postersData None \<and>
      postersWithNames c (posterStats (case postersData of None \<Rightarrow> [] | Some rows \<Rightarrow> rows))
        (map fst (posterStats (case postersData of None \<Rightarrow> [] | Some rows \<Rightarrow> rows))) = Inr posters \<and>
      topPosters (fetchPosters c s) = sortedPosters posters)"
  by (simp add: fetchPosters_def catchLeaderboard_def Let_def split: reply.splits option.splits sum.splits)

lemma topFillers_fetch:
  "topFillers (fetchLeaderboardData c s) = topFillers s \<or>
   (\<exists>fillersData fillers.
      fills_user_ids c = Reply fillersData None \<and>
      fillersWithNames c (fillerStats (case fillersData of None \<Rightarrow> [] | Some rows \<Rightarrow> rows))
        (map fst (fillerStats (case fillersData of None \<Rightarrow> [] | Some rows \<Rightarrow> rows))) = Inr fillers \<and>
      topFillers (fetchLeaderboardData c s) = sortedFillers fillers)"
  by (simp add: fetchLeaderboardData_def catchLeaderboard_def Let_def topFillers_fetchPosters
      split: reply.splits option.splits sum.splits)

lemma topPosters_fetch:
  "topPosters (fetchLeaderboardData c s) = topPosters s \<or>
   (\<exists>postersData posters.
      forms_user_ids c = Reply postersData None \<and>
      postersWithNames c (posterStats (case postersData of None \<Rightarrow> [] | Some rows \<Rightarrow> rows))
        (map fst (posterStats (case postersData of None \<Rightarrow> [] | Some rows \<Rightarrow> rows))) = Inr posters \<and>
      topPosters (fetchLeaderboardData c s) = sortedPosters posters)"
proof -
  have "topPosters (fetchLeaderboardData c s) = topPosters s \<or>
        (\<exists>fl. topPosters (fetchLeaderboardData c s) =
           topPosters (fetchPosters c (s\<lparr>lb_loading := True, topFillers := sortedFillers fl\<rparr>)))"
    by (auto simp: fetchLeaderboardData_def catchLeaderboard_def Let_def
        split: reply.splits option.splits sum.splits)
  then show ?thesis
  proof
    assume "topPosters (fetchLeaderboardData c s) = topPosters s"
    then show ?thesis by simp
  next
    assume "\<exists>fl. topPosters (fetchLeaderboardData c s) =
           topPosters (fetchPosters c (s\<lparr>lb_loading := True, topFillers := sortedFillers fl\<rparr>))"
    then obtain fl where eq: "topPosters (fetchLeaderboardData c s) =
           topPosters (fetchPosters c (s\<lparr>lb_loading := True, topFillers := sortedFillers fl\<rparr>))"
      by blast
    show ?thesis
      using topPosters_fetchPosters [of c "s\<lparr>lb_loading := True, topFillers := sortedFillers fl\<rparr>"]
      unfolding eq by simp
  qed
qed


section \<open>The leaderboard: fillers\<close>

lemma fillersWithNames_entries:
  "fillersWithNames c stats us = Inr fl \<Longrightarrow> e \<in> set fl \<Longrightarrow>
   \<exists>u \<in> set us. \<exists>st pe. map_of stats u = Some st \<and> profile_of c u = Reply (Some (name e)) pe \<and>
      formsFilled e = stat_formsFilled st \<and> points e = stat_points st \<and> badges e = 0"
proof (induction us arbitrary: fl)
  case Nil
  then show ?case by simp
next
  case (Cons u us)
  show ?case
  proof (cases "profile_of c u")
    case (Rejected x)
    with Cons.prems show ?thesis by simp
  next
    case (Reply profile pe)
    show ?thesis
    proof (cases profile)
      case None
      with Reply Cons.prems have "fillersWithNames c stats us = Inr fl" by simp
      from Cons.IH [OF this Cons.prems(2)] show ?thesis by auto
    next
      case (Some nm)
      with Reply Cons.prems obtain st others where
        st: "map_of stats u = Some st" and rest: "fillersWithNames c stats us = Inr others" and
        fl: "fl = \<lparr>rank = 0, name = nm, formsFilled = stat_formsFilled st,
                   points = stat_points st, badges = 0\<rparr> # others"
        by (auto split: option.splits sum.splits)
      show ?thesis
      proof (cases "e \<in> set others")
        case True
        from Cons.IH [OF rest True] show ?thesis by auto
      next
        case False
        with Cons.prems(2) fl have "e = \<lparr>rank = 0, name = nm, formsFilled = stat_formsFilled st,
                   points = stat_points st, badges = 0\<rparr>" by simp
        with st Reply Some show ?thesis by auto
      qed
    qed
  qed
qed

lemma unranked_filler:
  "e\<lparr>rank := 0\<rparr> = e0\<lparr>rank := 0\<rparr> \<Longrightarrow>
   name e = name e0 \<and> formsFilled e = formsFilled e0 \<and> points e = points e0 \<and> badges e = badges e0"
  by (cases e, cases e0) simp

lemma topFillers_counted:
  assumes "e \<in> set (topFillers (fetchLeaderboardData c leaderboard_initial))"
  shows "\<exists>fillersData u pe.
           fills_user_ids c = Reply fillersData None \<and>
           u \<in> set (case fillersData of None \<Rightarrow> [] | Some rows \<Rightarrow> rows) \<and>
           profile_of c u = Reply (Some (name e)) pe \<and>
           formsFilled e = count_list (case fillersData of None \<Rightarrow> [] | Some rows \<Rightarrow> rows) u \<and>
           points e = 5 * formsFilled e \<and> badges e = 0"
proof -
  from assms have "topFillers (fetchLeaderboardData c leaderboard_initial) \<noteq> topFillers leaderboard_initial"
    by (auto simp: leaderboard_initial_def)
  with topFillers_fetch [of c leaderboard_initial] obtain fillersData fillers where
    reply: "fills_user_ids c = Reply fillersData None" and
    loop: "fillersWithNames c (fillerStats (case fillersData of None \<Rightarrow> [] | Some rows \<Rightarrow> rows))
        (map fst (fillerStats (case fillersData of None \<Rightarrow> [] | Some rows \<Rightarrow> rows))) = Inr fillers" and
    top: "topFillers (fetchLeaderboardData c leaderboard_initial) = sortedFillers fillers"
    by blast
  from assms top obtain e0 where e0: "e0 \<in> set fillers" "e\<lparr>rank := 0\<rparr> = e0\<lparr>rank := 0\<rparr>"
    using sortedFillers_from by metis
  from fillersWithNames_entries [OF loop e0(1)] obtain u st pe where
    st: "map_of (fillerStats (case fillersData of None \<Rightarrow> [] | Some rows \<Rightarrow> rows)) u = Some st" and
    e0': "profile_of c u = Reply (Some (name e0)) pe" "formsFilled e0 = stat_formsFilled st"
      "points e0 = stat_points st" "badges e0 = 0"
    by blast
  from st have "u \<in> set (case fillersData of None \<Rightarrow> [] | Some rows \<Rightarrow> rows)"
    and "st = \<lparr>stat_formsFilled = count_list (case fillersData of None \<Rightarrow> [] | Some rows \<Rightarrow> rows) u,
               stat_points = 5 * count_list (case fillersData of None \<Rightarrow> [] | Some rows \<Rightarrow> rows) u,
               stat_badges = 0\<rparr>"
    by (auto simp: map_of_fillerStats split: if_splits)
  with reply e0' unranked_filler [OF e0(2)] show ?thesis by auto
qed

text \<open>
  Claim C10. Every entry of the fillers leaderboard has five points for each form
  filled and no badges: the statistics of a user count the fetched rows of that user,
  one form and five points for each.
\<close>

theorem filler_points_invariant:
  "(\<forall>e \<in> set (topFillers (fetchLeaderboardData c leaderboard_initial)).
      points e = 5 * formsFilled e \<and> badges e = 0) \<and>
   (\<forall>u. map_of (fillerStats rows) u =
      (if u \<in> set rows
       then Some \<lparr>stat_formsFilled = count_list rows u, stat_points = 5 * count_list rows u,
                  stat_badges = 0\<rparr>
       else None))"
  using topFillers_counted [of _ c] by (auto simp: map_of_fillerStats)

lemma campus_fillers:
  "topFillers (fetchLeaderboardData (db_client campus_db) leaderboard_initial) =
     [\<lparr>rank = 1, name = ''Bob'', formsFilled = 2, points = 10, badges = 0\<rparr>]"
  by code_simp

theorem filler_points_invariant_witness:
  "\<lparr>rank = 1, name = ''Bob'', formsFilled = 2, points = 10, badges = 0\<rparr> \<in>
     set (topFillers (fetchLeaderboardData (db_client campus_db) leaderboard_initial)) \<and>
   points \<lparr>rank = 1, name = ''Bob'', formsFilled = 2, points = 10, badges = 0\<rparr> =
     5 * formsFilled \<lparr>rank = 1, name = ''Bob'', formsFilled = 2, points = 10, badges = 0\<rparr>"
  using filler_points_invariant [of "db_client campus_db" "[]"] by (simp add: campus_fillers)

section \<open>The leaderboard: posters\<close>

lemma map_of_posterStep:
  "map_of (posterStep stats u) k =
     (if k = u
      then Some (case map_of stats u of
                   None \<Rightarrow> \<lparr>stat_formsPosted = 1, stat_totalResponses = 0, stat_avgRating = Fin 0\<rparr>
                 | Some st \<Rightarrow> st\<lparr>stat_formsPosted := stat_formsPosted st + 1\<rparr>)
      else map_of stats k)"
  by (auto simp: posterStep_def map_of_modify map_of_ensure split: option.splits)

lemma map_of_foldl_posterStep:
  "map_of (foldl posterStep acc rows) u =
     (case map_of acc u of
        None \<Rightarrow> if u \<in> set rows
                 then Some \<lparr>stat_formsPosted = count_list rows u, stat_totalResponses = 0,
                            stat_avgRating = Fin 0\<rparr>
                 else None
      | Some st \<Rightarrow> Some (st\<lparr>stat_formsPosted := stat_formsPosted st + count_list rows u\<rparr>))"
proof (induction rows arbitrary: acc)
  case Nil
  then show ?case by (simp split: option.splits)
next
  case (Cons r rows)
  show ?case
    by (simp add: Cons.IH map_of_posterStep count_list_0_iff split: option.splits)
qed

lemma map_of_posterStats:
  "map_of (posterStats rows) u =
     (if u \<in> set rows
      then Some \<lparr>stat_formsPosted = count_list rows u, stat_totalResponses = 0,
                 stat_avgRating = Fin 0\<rparr>
      else None)"
  by (simp add: posterStats_def map_of_foldl_posterStep)

lemma postersWithNames_entries:
  "postersWithNames c stats us = Inr pl \<Longrightarrow> e \<in> set pl \<Longrightarrow>
   \<exists>u \<in> set us. \<exists>st pe cnt avg.
      map_of stats u = Some st \<and> profile_of c u = Reply (Some (poster_name e)) pe \<and>
      posterResponses c u = Inr (cnt, avg) \<and>
      formsPosted e = stat_formsPosted st \<and> totalResponses e = cnt \<and> avgRating e = toFixed1 avg"
proof (induction us arbitrary: pl)
  case Nil
  then show ?case by simp
next
  case (Cons u us)
  show ?case
  proof (cases "profile_of c u")
    case (Rejected x)
    with Cons.prems show ?thesis by simp
  next
    case (Reply profile pe)
    show ?thesis
    proof (cases profile)
      case None
      with Reply Cons.prems have "postersWithNames c stats us = Inr pl" by simp
      from Cons.IH [OF this Cons.prems(2)] show ?thesis by auto
    next
      case (Some nm)
      with Reply Cons.prems obtain st cnt avg others where
        st: "map_of stats u = Some st" and resp: "posterResponses c u = Inr (cnt, avg)" and
        rest: "postersWithNames c stats us = Inr others" and
        pl: "pl = \<lparr>poster_rank = 0, poster_name = nm, formsPosted = stat_formsPosted st,
                   totalResponses = cnt, avgRating = toFixed1 avg\<rparr> # others"
        by (auto split: option.splits sum.splits prod.splits)
      show ?thesis
      proof (cases "e \<in> set others")
        case True
        from Cons.IH [OF rest True] show ?thesis by auto
      next
        case False
        with Cons.prems(2) pl have "e = \<lparr>poster_rank = 0, poster_name = nm,
            formsPosted = stat_formsPosted st, totalResponses = cnt, avgRating = toFixed1 avg\<rparr>"
          by simp
        with st resp Reply Some show ?thesis by auto
      qed
    qed
  qed
qed

lemma unranked_poster:
  "e\<lparr>poster_rank := 0\<rparr> = e0\<lparr>poster_rank := 0\<rparr> \<Longrightarrow>
   poster_name e = poster_name e0 \<and> formsPosted e = formsPosted e0 \<and>
   totalResponses e = totalResponses e0 \<and> avgRating e = avgRating e0"
  by (cases e, cases e0) simp

lemma topPosters_counted:
  assumes "e \<in> set (topPosters (fetchLeaderboardData c leaderboard_initial))"
  shows "\<exists>postersData u pe cnt avg.
           forms_user_ids c = Reply postersData None \<and>
           u \<in> set (case postersData of None \<Rightarrow> [] | Some rows \<Rightarrow> rows) \<and>
           profile_of c u = Reply (Some (poster_name e)) pe \<and>
           posterResponses c u = Inr (cnt, avg) \<and>
           formsPosted e = count_list (case postersData of None \<Rightarrow> [] | Some rows \<Rightarrow> rows) u \<and>
           totalResponses e = cnt \<and> avgRating e = toFixed1 avg"
proof -
  from assms have "topPosters (fetchLeaderboardData c leaderboard_initial) \<noteq> topPosters leaderboard_initial"
    by (auto simp: leaderboard_initial_def)
  with topPosters_fetch [of c leaderboard_initial] obtain postersData posters where
    reply: "forms_user_ids c = Reply postersData None" and
    loop: "postersWithNames c (posterStats (case postersData of None \<Rightarrow> [] | Some rows \<Rightarrow> rows))
        (map fst (posterStats (case postersData of None \<Rightarrow> [] | Some rows \<Rightarrow> rows))) = Inr posters" and
    top: "topPosters (fetchLeaderboardData c leaderboard_initial) = sortedPosters posters"
    by blast
  from assms top obtain e0 where e0: "e0 \<in> set posters" "e\<lparr>poster_rank := 0\<rparr> = e0\<lparr>poster_rank := 0\<rparr>"
    using sortedPosters_from by metis
  from postersWithNames_entries [OF loop e0(1)] obtain u st pe cnt avg where
    st: "map_of (posterStats (case postersData of None \<Rightarrow> [] | Some rows \<Rightarrow> rows)) u = Some st" and
    e0': "profile_of c u = Reply (Some (poster_name e0)) pe" "posterResponses c u = Inr (cnt, avg)"
      "formsPosted e0 = stat_formsPosted st" "totalResponses e0 = cnt" "avgRating e0 = toFixed1 avg"
    by blast
  from st have "u \<in> set (case postersData of None \<Rightarrow> [] | Some rows \<Rightarrow> rows)"
    and "stat_formsPosted st = count_list (case postersData of None \<Rightarrow> [] | Some rows \<Rightarrow> rows) u"
    by (auto simp: map_of_posterStats split: if_splits)
  with reply e0' unranked_poster [OF e0(2)] show ?thesis by auto
qed

lemma foldl_responses:
  "foldl (\<lambda>sum r. sum + (case r of None \<Rightarrow> 0 | Some x \<Rightarrow> if x = 0 then 0 else x)) a rs =
     a + sum_list (concat (map (\<lambda>r. case r of None \<Rightarrow> [] | Some x \<Rightarrow> [x]) rs))"
  by (induction rs arbitrary: a) (simp_all add: ac_simps split: option.splits)

lemma concat_filter_some:
  "concat (map (\<lambda>r. case r of None \<Rightarrow> [] | Some x \<Rightarrow> [x]) (filter (\<lambda>r. r \<noteq> None) rs)) =
   concat (map (\<lambda>r. case r of None \<Rightarrow> [] | Some x \<Rightarrow> [x]) rs)"
  by (induction rs) (auto split: option.splits)

lemma length_filter_some:
  "length (filter (\<lambda>r. r \<noteq> None) rs) =
   length (concat (map (\<lambda>r. case r of None \<Rightarrow> [] | Some x \<Rightarrow> [x]) rs))"
  by (induction rs) (auto split: option.splits)

lemma responsesAverage_mean:
  "responsesAverage rs =
     Fin (mean_or_zero (concat (map (\<lambda>r. case r of None \<Rightarrow> [] | Some x \<Rightarrow> [x]) rs)))"
proof (cases "filter (\<lambda>r. r \<noteq> None) rs = []")
  case True
  then have "concat (map (\<lambda>r. case r of None \<Rightarrow> [] | Some x \<Rightarrow> [x]) rs) = []"
    using length_filter_some [of rs] by simp
  with True show ?thesis by (simp add: responsesAverage_def mean_or_zero_def)
next
  case False
  then have ne: "concat (map (\<lambda>r. case r of None \<Rightarrow> [] | Some x \<Rightarrow> [x]) rs) \<noteq> []"
    using length_filter_some [of rs] by (metis length_0_conv)
  have "responsesAverage rs =
      js_div (real_of_int (sum_list (concat (map (\<lambda>r. case r of None \<Rightarrow> [] | Some x \<Rightarrow> [x]) rs))))
             (real (length (concat (map (\<lambda>r. case r of None \<Rightarrow> [] | Some x \<Rightarrow> [x]) rs))))"
    using False
    by (simp add: responsesAverage_def Let_def foldl_responses concat_filter_some
        length_filter_some [symmetric] del: not_None_eq)
  with ne show ?thesis by (simp add: js_div_def mean_or_zero_def arithmetic_mean_def)
qed



lemma campus_posters:
  "topPosters (fetchLeaderboardData (db_client campus_db) leaderboard_initial) =
     [\<lparr>poster_rank = 1, poster_name = ''Ann'', formsPosted = 1, totalResponses = 3,
       avgRating = Fin (47 / 10)\<rparr>,
      \<lparr>poster_rank = 2, poster_name = ''Bob'', formsPosted = 1, totalResponses = 0,
       avgRating = Fin 0\<rparr>]"
  by code_simp







section \<open>The leaderboard: both lists\<close>



section \<open>Averages without fills\<close>

lemma averageRating_finite: "\<exists>x. averageRating f = Fin x"
  by (simp add: averageRating_def js_div_def)

lemma ratingKey_finite: "\<exists>x. ratingKey f = Fin x"
  by (simp add: ratingKey_def js_div_def)

lemma posterResponses_finite:
  "posterResponses c u = Inr (cnt, avg) \<Longrightarrow> \<exists>x. avg = Fin x"
  by (auto simp: posterResponses_def responsesAverage_mean
      split: reply.splits option.splits if_splits)

text \<open>
  Claim C8. For a form without fills the average is 0, as the value of the card and as
  the key of the \<open>'rating'\<close> ordering, and the average of a poster is 0 when no
  fetched response has a rating. No average is ever the result of a division by zero:
  a division by zero gives \<open>NaN\<close> or an infinity, and the averages of the feed, of the
  responses of a poster and of every entry of the posters leaderboard are finite.
\<close>

theorem averages_guarded:
  "(form_fills f = [] \<longrightarrow>
      averageRating f = Fin 0 \<and> ratingKey f = Fin 0 \<and> card_averageRating (formCard f) = Fin 0) \<and>
   (\<exists>x. averageRating f = Fin x) \<and>
   (\<exists>x. ratingKey f = Fin x) \<and>
   (filter (\<lambda>r. r \<noteq> None) rs = [] \<longrightarrow> responsesAverage rs = Fin 0) \<and>
   (\<exists>x. responsesAverage rs = Fin x) \<and>
   (\<forall>u cnt avg. posterResponses c u = Inr (cnt, avg) \<longrightarrow> (\<exists>x. avg = Fin x)) \<and>
   (\<forall>e \<in> set (topPosters (fetchLeaderboardData c leaderboard_initial)). \<exists>x. avgRating e = Fin x)"
proof (intro conjI)
  show "form_fills f = [] \<longrightarrow>
      averageRating f = Fin 0 \<and> ratingKey f = Fin 0 \<and> card_averageRating (formCard f) = Fin 0"
    by (simp add: averageRating_def ratingKey_def formCard_def)
  show "\<exists>x. averageRating f = Fin x" by (rule averageRating_finite)
  show "\<exists>x. ratingKey f = Fin x" by (rule ratingKey_finite)
  show "filter (\<lambda>r. r \<noteq> None) rs = [] \<longrightarrow> responsesAverage rs = Fin 0"
    by (simp add: responsesAverage_def del: not_None_eq)
  show "\<exists>x. responsesAverage rs = Fin x" by (simp add: responsesAverage_mean)
  show "\<forall>u cnt avg. posterResponses c u = Inr (cnt, avg) \<longrightarrow> (\<exists>x. avg = Fin x)"
    using posterResponses_finite by blast
  show "\<forall>e \<in> set (topPosters (fetchLeaderboardData c leaderboard_initial)). \<exists>x. avgRating e = Fin x"
  proof
    fix e
    assume "e \<in> set (topPosters (fetchLeaderboardData c leaderboard_initial))"
    from topPosters_counted [OF this] obtain u cnt avg where
      "posterResponses c u = Inr (cnt, avg)" "avgRating e = toFixed1 avg"
      by blast
    with posterResponses_finite [of c u cnt avg] show "\<exists>x. avgRating e = Fin x"
      by auto
  qed
qed

theorem averages_guarded_witness:
  "form_fills unfilled_form = [] \<and>
   averageRating unfilled_form = Fin 0 \<and> ratingKey unfilled_form = Fin 0 \<and>
   card_averageRating (formCard unfilled_form) = Fin 0 \<and>
   filter (\<lambda>r. r \<noteq> None) [None :: int option] = [] \<and>
   responsesAverage [None] = Fin 0 \<and>
   posterResponses (db_client campus_db) ''u2'' = Inr (0, Fin 0) \<and>
   \<lparr>poster_rank = 1, poster_name = ''Ann'', formsPosted = 1, totalResponses = 3,
     avgRating = Fin (47 / 10)\<rparr> \<in>
     set (topPosters (fetchLeaderboardData (db_client campus_db) leaderboard_initial))"
proof -
  have r: "posterResponses (db_client campus_db) ''u2'' = Inr (0, Fin 0)"
    by code_simp
  show ?thesis
    using averages_guarded [of unfilled_form "[None]" "db_client campus_db"] r
    by (simp add: unfilled_form_def campus_posters)
qed

end
